theory Spec2Isabelle
  imports Main "HOL-Library.Multiset"
begin

section \<open>The Tummler board descriptor\<close>

text \<open>
  A shallow embedding of
  \<^verbatim>\<open>core/services/ardupilot_manager/flight_controller_detector/linux/tummler.py\<close>:
  the class \<^verbatim>\<open>Tummler\<close> with its class attributes \<^verbatim>\<open>manufacturer\<close> and
  \<^verbatim>\<open>devices\<close>, its constructor, and the methods \<^verbatim>\<open>detect\<close> and
  \<^verbatim>\<open>get_serials\<close>. Python integers are \<open>int\<close>, Python strings are \<open>string\<close>,
  a raised exception is the \<open>Inl\<close> branch of a sum.
\<close>

subsection \<open>Data model\<close>

text \<open>
  The exceptions the model distinguishes: a fault of the bus transaction, the
  \<^verbatim>\<open>TypeError\<close> Python raises for a keyword argument given twice, and any other
  exception a collaborator may raise.
\<close>

datatype error = BusAccessError | TypeError | OtherError string

text \<open>
  Modelled from the spec: the enumeration \<^verbatim>\<open>Platform\<close> of \<^verbatim>\<open>typedefs\<close>, whose
  declaration is not part of the source file. The only member the source names is
  \<^verbatim>\<open>Platform.Tummler\<close>; every other member is kept apart from it by its name.
\<close>

datatype Platform = Platform_Tummler | Platform_Other string

text \<open>
  Modelled from the spec: the value type \<^verbatim>\<open>Serial\<close> of \<^verbatim>\<open>typedefs\<close>, whose
  declaration is not part of the source file: a value object with a logical port role
  and a device path, both strings.
\<close>

record Serial =
  port :: string
  endpoint :: string

text \<open>
  The class-level data of a board: \<^verbatim>\<open>manufacturer\<close> and the dict \<^verbatim>\<open>devices\<close>,
  from a device-role key to the tuple \<^verbatim>\<open>(address, bus)\<close>. The dict is an association
  list in insertion order, the order in which \<^verbatim>\<open>.values()\<close> iterates.
\<close>

record descriptor =
  manufacturer :: string
  devices :: "(string \<times> (int \<times> int)) list"

definition dict_values :: "('k \<times> 'v) list \<Rightarrow> 'v list" where
  "dict_values d = map snd d"

text \<open>One invocation of the bus probe, with its arguments in call order.\<close>

record i2c_call =
  call_bus :: int
  call_address :: int

text \<open>
  What a method call can read and change: the descriptor it is called on (what
  \<^verbatim>\<open>self.manufacturer\<close> and \<^verbatim>\<open>self.devices\<close> resolve to; for an instance of
  \<^verbatim>\<open>Tummler\<close> these are the class attributes), the simulated bus (for a bus index and
  an address: present, absent, or a fault), and the log of the probe invocations made
  so far.
\<close>

record state =
  board :: descriptor
  bus_probe :: "int \<Rightarrow> int \<Rightarrow> error + bool"
  probe_calls :: "i2c_call list"

subsection \<open>The class attributes\<close>

text \<open>
  \<^verbatim>\<open>manufacturer = "Tummler ROV"\<close> and \<^verbatim>\<open>devices = {"STM32": (0x66, 1)}\<close>.
\<close>

definition Tummler :: descriptor where
  "Tummler = \<lparr>manufacturer = ''Tummler ROV'', devices = [(''STM32'', (0x66, 1))]\<rparr>"

subsection \<open>The bus probe\<close>

text \<open>
  Modelled from the spec: \<^verbatim>\<open>check_for_i2c_device(bus, address)\<close>, a method of the base
  class \<^verbatim>\<open>LinuxFlightController\<close> that is not part of the source file. Its contract is
  \<^verbatim>\<open>exists(bus_index, address) -> boolean\<close>, failing with \<^verbatim>\<open>BusAccessError\<close> when the
  bus cannot be queried. The model answers from the simulated bus and records the
  invocation; it changes nothing else.
\<close>

definition check_for_i2c_device :: "int \<Rightarrow> int \<Rightarrow> state \<Rightarrow> (error + bool) \<times> state" where
  "check_for_i2c_device bus addr s =
     (bus_probe s bus addr,
      s\<lparr>probe_calls := probe_calls s @ [\<lparr>call_bus = bus, call_address = addr\<rparr>]\<rparr>)"

subsection \<open>detect\<close>

text \<open>
  \<^verbatim>\<open>all(self.check_for_i2c_device(bus, address) for address, bus in ...)\<close>:
  the generator is consumed from the left, each tuple is unpacked as
  \<^verbatim>\<open>(address, bus)\<close> and probed as \<^verbatim>\<open>(bus, address)\<close>; \<^verbatim>\<open>all\<close> returns
  \<^verbatim>\<open>False\<close> at the first false element without consuming the rest, an exception of
  the probe leaves the whole expression, and an exhausted generator gives \<^verbatim>\<open>True\<close>.
\<close>

fun all_probes :: "(int \<times> int) list \<Rightarrow> state \<Rightarrow> (error + bool) \<times> state" where
  "all_probes [] s = (Inr True, s)"
| "all_probes ((addr, bus) # rest) s =
     (case check_for_i2c_device bus addr s of
        (Inl e, s') \<Rightarrow> (Inl e, s')
      | (Inr present, s') \<Rightarrow> if present then all_probes rest s' else (Inr False, s'))"

definition detect :: "state \<Rightarrow> (error + bool) \<times> state" where
  "detect s = all_probes (dict_values (devices (board s))) s"

subsection \<open>get\_serials\<close>

definition get_serials :: "state \<Rightarrow> Serial list \<times> state" where
  "get_serials s =
     ([\<lparr>port = ''C'', endpoint = ''/dev/ttyAMA0''\<rparr>,
       \<lparr>port = ''B'', endpoint = ''/dev/ttyAMA2''\<rparr>], s)"

subsection \<open>The constructor\<close>

text \<open>
  Keyword arguments are a dict from names to values. A value is a string, a platform,
  or any other Python object.
\<close>

datatype 'a pyval = Str string | Plat Platform | Obj 'a

type_synonym 'v kwargs = "string \<rightharpoonup> 'v"

text \<open>
  The call \<^verbatim>\<open>f(**data, k1=v1, k2=v2)\<close> builds one dict of keyword arguments from
  \<^verbatim>\<open>data\<close> and the keywords written out; a name that is already there raises
  \<^verbatim>\<open>TypeError\<close> (got multiple values for keyword argument), and \<^verbatim>\<open>f\<close> is not entered.
\<close>

fun merge_keywords :: "'v kwargs \<Rightarrow> (string \<times> 'v) list \<Rightarrow> error + 'v kwargs" where
  "merge_keywords data [] = Inr data"
| "merge_keywords data ((k, v) # kws) =
     (if data k \<noteq> None then Inl TypeError else merge_keywords (data(k \<mapsto> v)) kws)"

text \<open>
  \<^verbatim>\<open>__init__(self, **data)\<close>. The constructor of the base class is not part of the
  source file; it is the parameter \<open>super_init\<close>, which receives the keyword arguments
  and may read and change a world of its own.
\<close>

definition Tummler_init ::
  "('a pyval kwargs \<Rightarrow> 'w \<Rightarrow> (error + 'i) \<times> 'w) \<Rightarrow> 'a pyval kwargs \<Rightarrow> 'w \<Rightarrow> (error + 'i) \<times> 'w" where
  "Tummler_init super_init data w =
     (let name = Str ''Tummler''; plat = Plat Platform_Tummler in
      case merge_keywords data [(''name'', name), (''platform'', plat)] of
        Inl e \<Rightarrow> (Inl e, w)
      | Inr kw \<Rightarrow> super_init kw w)"

subsection \<open>Probe results of a table entry, simulated hosts\<close>

text \<open>
  For a table entry \<^verbatim>\<open>(address, bus)\<close>: the simulated bus reports the device present,
  respectively the probe of the entry raises.
\<close>

fun entry_present :: "state \<Rightarrow> int \<times> int \<Rightarrow> bool" where
  "entry_present s (addr, bus) = (bus_probe s bus addr = Inr True)"

fun entry_fault :: "state \<Rightarrow> int \<times> int \<Rightarrow> bool" where
  "entry_fault s (addr, bus) = isl (bus_probe s bus addr)"

text \<open>
  A simulated bus: the probe of a \<^verbatim>\<open>(bus, address)\<close> pair listed in \<open>faulty\<close> raises
  \<^verbatim>\<open>BusAccessError\<close>, a pair listed in \<open>present\<close> answers, every other pair is
  absent. \<open>Tummler_on\<close> is a Tummler instance on a host with the given bus, before any
  probe.
\<close>

definition simulated_bus ::
  "(int \<times> int) list \<Rightarrow> (int \<times> int) list \<Rightarrow> int \<Rightarrow> int \<Rightarrow> error + bool" where
  "simulated_bus faulty present bus addr =
     (if List.member faulty (bus, addr) then Inl BusAccessError
      else Inr (List.member present (bus, addr)))"

definition Tummler_on :: "(int \<Rightarrow> int \<Rightarrow> error + bool) \<Rightarrow> state" where
  "Tummler_on p = \<lparr>board = Tummler, bus_probe = p, probe_calls = []\<rparr>"

text \<open>
  A descriptor with an arbitrary device table on a host with the given bus, and a table
  of two entries, for the properties of \<^verbatim>\<open>detect\<close> that are about any table.
\<close>

definition board_with ::
  "(string \<times> (int \<times> int)) list \<Rightarrow> (int \<Rightarrow> int \<Rightarrow> error + bool) \<Rightarrow> state" where
  "board_with d p =
     \<lparr>board = \<lparr>manufacturer = ''Tummler ROV'', devices = d\<rparr>, bus_probe = p, probe_calls = []\<rparr>"

definition two_devices :: "(string \<times> (int \<times> int)) list" where
  "two_devices = [(''STM32'', (0x66, 1)), (''IMU'', (0x68, 4))]"

text \<open>
  A base-class constructor that accepts every dict of keyword arguments, returns it and
  records that it ran.
\<close>

definition kwargs_seen :: "'v kwargs \<Rightarrow> 'v kwargs list \<Rightarrow> (error + 'v kwargs) \<times> 'v kwargs list" where
  "kwargs_seen kw w = (Inr kw, w @ [kw])"

section \<open>Properties\<close>

subsection \<open>What a probe and a pass over the table leave unchanged\<close>

lemma check_for_i2c_device_frame:
  "board (snd (check_for_i2c_device bus addr s)) = board s"
  "bus_probe (snd (check_for_i2c_device bus addr s)) = bus_probe s"
  by (simp_all add: check_for_i2c_device_def)

lemma all_probes_frame:
  "board (snd (all_probes vs s)) = board s \<and> bus_probe (snd (all_probes vs s)) = bus_probe s"
proof (induction vs arbitrary: s)
  case Nil
  show ?case by simp
next
  case (Cons v vs)
  obtain addr bus where v: "v = (addr, bus)" by (cases v)
  show ?case
    using Cons.IH [of "snd (check_for_i2c_device bus addr s)"]
    by (simp add: v check_for_i2c_device_def split: sum.splits)
qed

lemma entry_present_cong: "bus_probe s' = bus_probe s \<Longrightarrow> entry_present s' = entry_present s"
  by (simp add: fun_eq_iff)

lemma entry_fault_cong: "bus_probe s' = bus_probe s \<Longrightarrow> entry_fault s' = entry_fault s"
  by (simp add: fun_eq_iff)

text \<open>
  Without a fault the pass over the table returns the conjunction of the probe results;
  the probes after the first absent entry are not made, and do not change the result.
\<close>

lemma all_probes_no_fault:
  "list_all (\<lambda>v. \<not> entry_fault s v) vs \<Longrightarrow>
   fst (all_probes vs s) = Inr (list_all (entry_present s) vs)"
proof (induction vs arbitrary: s)
  case Nil
  show ?case by simp
next
  case (Cons v vs)
  obtain addr bus where v: "v = (addr, bus)" by (cases v)
  let ?s' = "snd (check_for_i2c_device bus addr s)"
  have same: "bus_probe ?s' = bus_probe s"
    by (rule check_for_i2c_device_frame)
  have rest: "list_all (\<lambda>v. \<not> entry_fault ?s' v) vs"
    using Cons.prems by (simp add: entry_fault_cong [OF same])
  have ih: "fst (all_probes vs ?s') = Inr (list_all (entry_present s) vs)"
    using Cons.IH [OF rest] by (simp add: entry_present_cong [OF same])
  from Cons.prems obtain r where r: "bus_probe s bus addr = Inr r"
    by (cases "bus_probe s bus addr") (simp_all add: v)
  show ?case
    using ih r by (cases r) (simp_all add: v check_for_i2c_device_def)
qed

text \<open>
  A fault at an entry that is reached (every entry before it is present) is the result.
\<close>

lemma all_probes_first_fault:
  "list_all (entry_present s) pre \<Longrightarrow> bus_probe s bus addr = Inl e \<Longrightarrow>
   fst (all_probes (pre @ (addr, bus) # post) s) = Inl e"
proof (induction pre arbitrary: s)
  case Nil
  then show ?case by (simp add: check_for_i2c_device_def)
next
  case (Cons v pre)
  obtain a b where v: "v = (a, b)" by (cases v)
  let ?s' = "snd (check_for_i2c_device b a s)"
  have same: "bus_probe ?s' = bus_probe s"
    by (rule check_for_i2c_device_frame)
  have "list_all (entry_present ?s') pre" "bus_probe ?s' bus addr = Inl e"
    using Cons.prems by (simp_all add: entry_present_cong [OF same] same)
  then have "fst (all_probes (pre @ (addr, bus) # post) ?s') = Inl e"
    by (rule Cons.IH)
  moreover have "bus_probe s b a = Inr True"
    using Cons.prems(1) by (simp add: v)
  ultimately show ?case
    by (simp add: v check_for_i2c_device_def)
qed

subsection \<open>detect is the conjunction of the probe results\<close>

text \<open>
  C1. When no configured entry raises an access fault, \<^verbatim>\<open>detect()\<close> returns the
  conjunction of the probe results over all entries of \<^verbatim>\<open>devices\<close>: true if every
  configured address probes present, false if at least one probes absent. This holds for
  every descriptor, and so for Tummler, whose table has the single entry
  \<^verbatim>\<open>"STM32": (0x66, 1)\<close>.
\<close>

theorem detect_is_conjunction:
  assumes "list_all (\<lambda>v. \<not> entry_fault s v) (dict_values (devices (board s)))"
  shows "fst (detect s) = Inr (list_all (entry_present s) (dict_values (devices (board s))))"
  unfolding detect_def using assms by (rule all_probes_no_fault)

theorem detect_is_conjunction_witness:
  "list_all (\<lambda>v. \<not> entry_fault (Tummler_on (simulated_bus [] [(1, 0x66)])) v)
     (dict_values (devices (board (Tummler_on (simulated_bus [] [(1, 0x66)])))))
   \<and> fst (detect (Tummler_on (simulated_bus [] [(1, 0x66)]))) = Inr True
   \<and> list_all (\<lambda>v. \<not> entry_fault (Tummler_on (simulated_bus [] [])) v)
     (dict_values (devices (board (Tummler_on (simulated_bus [] [])))))
   \<and> fst (detect (Tummler_on (simulated_bus [] []))) = Inr False"
proof -
  have p: "list_all (\<lambda>v. \<not> entry_fault (Tummler_on (simulated_bus [] [(1, 0x66)])) v)
     (dict_values (devices (board (Tummler_on (simulated_bus [] [(1, 0x66)])))))"
    by (simp add: Tummler_on_def Tummler_def dict_values_def simulated_bus_def)
  have a: "list_all (\<lambda>v. \<not> entry_fault (Tummler_on (simulated_bus [] [])) v)
     (dict_values (devices (board (Tummler_on (simulated_bus [] [])))))"
    by (simp add: Tummler_on_def Tummler_def dict_values_def simulated_bus_def)
  show ?thesis
    using p a detect_is_conjunction [OF p] detect_is_conjunction [OF a]
    by (simp add: Tummler_on_def Tummler_def dict_values_def simulated_bus_def)
qed

subsection \<open>A fault of the probe propagates\<close>

text \<open>
  C2. If a probe made during \<^verbatim>\<open>detect()\<close> raises, \<^verbatim>\<open>detect()\<close> ends with that
  error; it does not return false. A probe is made for an entry when every entry before
  it in the table probed present; for Tummler the single entry is always probed.
\<close>

theorem detect_propagates_fault:
  assumes "dict_values (devices (board s)) = pre @ (addr, bus) # post"
    and "list_all (entry_present s) pre"
    and "bus_probe s bus addr = Inl e"
  shows "fst (detect s) = Inl e \<and> fst (detect s) \<noteq> Inr False"
proof -
  have "fst (detect s) = Inl e"
    unfolding detect_def assms(1) using assms(2,3) by (rule all_probes_first_fault)
  then show ?thesis by simp
qed

theorem detect_propagates_fault_witness:
  "dict_values (devices (board (Tummler_on (simulated_bus [(1, 0x66)] [])))) = [] @ (0x66, 1) # []
   \<and> list_all (entry_present (Tummler_on (simulated_bus [(1, 0x66)] []))) []
   \<and> bus_probe (Tummler_on (simulated_bus [(1, 0x66)] [])) 1 0x66 = Inl BusAccessError
   \<and> fst (detect (Tummler_on (simulated_bus [(1, 0x66)] []))) = Inl BusAccessError
   \<and> fst (detect (Tummler_on (simulated_bus [(1, 0x66)] []))) \<noteq> Inr False"
proof -
  let ?s = "Tummler_on (simulated_bus [(1, 0x66)] [])"
  have d: "dict_values (devices (board ?s)) = [] @ (0x66, 1) # []"
    by (simp add: Tummler_on_def Tummler_def dict_values_def)
  have p: "list_all (entry_present ?s) []" by simp
  have f: "bus_probe ?s 1 0x66 = Inl BusAccessError"
    by (simp add: Tummler_on_def simulated_bus_def)
  show ?thesis
    using d p f detect_propagates_fault [OF d p f] by simp
qed

subsection \<open>The serial table\<close>

text \<open>
  C3. Every call of \<^verbatim>\<open>get_serials()\<close> returns exactly the two-element sequence
  port "C" at /dev/ttyAMA0, then port "B" at /dev/ttyAMA2, in that order; a repeated
  call, and a call after \<^verbatim>\<open>detect()\<close>, returns the same sequence.
\<close>

theorem get_serials_fixed:
  "fst (get_serials s) =
     [\<lparr>port = ''C'', endpoint = ''/dev/ttyAMA0''\<rparr>, \<lparr>port = ''B'', endpoint = ''/dev/ttyAMA2''\<rparr>]
   \<and> length (fst (get_serials s)) = 2
   \<and> fst (get_serials (snd (get_serials s))) = fst (get_serials s)
   \<and> fst (get_serials (snd (detect s))) = fst (get_serials s)"
  by (simp add: get_serials_def)

text \<open>
  C5. \<^verbatim>\<open>get_serials()\<close> never invokes the bus probe and has no effect: it leaves the
  state as it is, so the log of probe invocations does not grow and a count of zero stays
  zero, and its result is the same whatever the bus answers.
\<close>

theorem get_serials_no_probe:
  "snd (get_serials s) = s
   \<and> probe_calls (snd (get_serials s)) = probe_calls s
   \<and> length (probe_calls (snd (get_serials (s\<lparr>probe_calls := []\<rparr>)))) = 0
   \<and> fst (get_serials (s\<lparr>bus_probe := p\<rparr>)) = fst (get_serials s)"
  by (simp add: get_serials_def)

subsection \<open>The probe made by detect on Tummler\<close>

text \<open>
  C4. On a Tummler instance \<^verbatim>\<open>detect()\<close> invokes the bus probe exactly once, with the
  bus index 1 as first argument and the address 0x66 as second, although the table stores
  the pair as \<^verbatim>\<open>(0x66, 1)\<close>, address first; its result is what that probe returns.
\<close>

theorem detect_probes_bus_1_address_0x66_once:
  "probe_calls (snd (detect \<lparr>board = Tummler, bus_probe = p, probe_calls = cs\<rparr>))
     = cs @ [\<lparr>call_bus = 1, call_address = 0x66\<rparr>]
   \<and> length (probe_calls (snd (detect \<lparr>board = Tummler, bus_probe = p, probe_calls = cs\<rparr>)))
     = length cs + 1
   \<and> fst (detect \<lparr>board = Tummler, bus_probe = p, probe_calls = cs\<rparr>)
     = p 1 0x66
   \<and> dict_values (devices Tummler) = [(0x66, 1)]"
  by (simp add: detect_def Tummler_def dict_values_def check_for_i2c_device_def
      split: sum.splits)

subsection \<open>The device table is not empty and is not changed\<close>

text \<open>
  C6. The device table of Tummler is exactly \<^verbatim>\<open>"STM32": (0x66, 1)\<close>, so it is not
  empty, and neither \<^verbatim>\<open>detect()\<close> nor \<^verbatim>\<open>get_serials()\<close> changes the table or the
  manufacturer of the descriptor it is called on.
\<close>

theorem Tummler_devices_invariant:
  "devices Tummler = [(''STM32'', (0x66, 1))]
   \<and> devices Tummler \<noteq> []
   \<and> board (snd (detect s)) = board s
   \<and> board (snd (get_serials s)) = board s"
  by (simp add: Tummler_def detect_def all_probes_frame get_serials_def)

subsection \<open>The empty table\<close>

text \<open>
  C7. Over an empty device table \<^verbatim>\<open>detect()\<close> returns true, without any probe.
\<close>

theorem detect_empty_devices:
  "devices (board s) = [] \<Longrightarrow> detect s = (Inr True, s)"
  by (simp add: detect_def dict_values_def)

theorem detect_empty_devices_witness:
  "devices (board \<lparr>board = \<lparr>manufacturer = ''Tummler ROV'', devices = []\<rparr>,
                   bus_probe = simulated_bus [(1, 0x66)] [], probe_calls = []\<rparr>) = []
   \<and> detect \<lparr>board = \<lparr>manufacturer = ''Tummler ROV'', devices = []\<rparr>,
             bus_probe = simulated_bus [(1, 0x66)] [], probe_calls = []\<rparr>
     = (Inr True, \<lparr>board = \<lparr>manufacturer = ''Tummler ROV'', devices = []\<rparr>,
             bus_probe = simulated_bus [(1, 0x66)] [], probe_calls = []\<rparr>)"
  using detect_empty_devices [of "\<lparr>board = \<lparr>manufacturer = ''Tummler ROV'', devices = []\<rparr>,
             bus_probe = simulated_bus [(1, 0x66)] [], probe_calls = []\<rparr>"]
  by simp

subsection \<open>The order of the entries\<close>

text \<open>
  C8. The boolean result of \<^verbatim>\<open>detect()\<close> does not depend on the order of the entries:
  two tables with the same entries in any order, on the same bus with no access fault at
  a configured entry, give the same result. (The probes made may differ, as the witness
  shows.)
\<close>

theorem detect_order_independent:
  assumes "mset (devices (board s')) = mset (devices (board s))"
    and "bus_probe s' = bus_probe s"
    and "list_all (\<lambda>v. \<not> entry_fault s v) (dict_values (devices (board s)))"
  shows "fst (detect s') = fst (detect s)"
proof -
  have "mset (dict_values (devices (board s'))) = mset (dict_values (devices (board s)))"
    using assms(1) by (simp add: dict_values_def)
  then have vs: "set (dict_values (devices (board s'))) = set (dict_values (devices (board s)))"
    by (rule mset_eq_setD)
  have nf: "list_all (\<lambda>v. \<not> entry_fault s' v) (dict_values (devices (board s')))"
    using assms(3) by (simp add: entry_fault_cong [OF assms(2)] list_all_iff vs)
  have "fst (detect s') = Inr (list_all (entry_present s') (dict_values (devices (board s'))))"
    unfolding detect_def using nf by (rule all_probes_no_fault)
  also have "\<dots> = Inr (list_all (entry_present s) (dict_values (devices (board s))))"
    by (simp add: entry_present_cong [OF assms(2)] list_all_iff vs)
  also have "\<dots> = fst (detect s)"
    unfolding detect_def using assms(3) by (rule all_probes_no_fault [symmetric])
  finally show ?thesis .
qed

theorem detect_order_independent_witness:
  "mset (devices (board (board_with (rev two_devices) (simulated_bus [] [(1, 0x66)]))))
     = mset (devices (board (board_with two_devices (simulated_bus [] [(1, 0x66)]))))
   \<and> bus_probe (board_with (rev two_devices) (simulated_bus [] [(1, 0x66)]))
     = bus_probe (board_with two_devices (simulated_bus [] [(1, 0x66)]))
   \<and> list_all (\<lambda>v. \<not> entry_fault (board_with two_devices (simulated_bus [] [(1, 0x66)])) v)
       (dict_values (devices (board (board_with two_devices (simulated_bus [] [(1, 0x66)])))))
   \<and> fst (detect (board_with (rev two_devices) (simulated_bus [] [(1, 0x66)]))) = Inr False
   \<and> fst (detect (board_with two_devices (simulated_bus [] [(1, 0x66)]))) = Inr False
   \<and> probe_calls (snd (detect (board_with (rev two_devices) (simulated_bus [] [(1, 0x66)]))))
     \<noteq> probe_calls (snd (detect (board_with two_devices (simulated_bus [] [(1, 0x66)]))))"
proof -
  let ?p = "simulated_bus [] [(1, 0x66)]"
  have m: "mset (devices (board (board_with (rev two_devices) ?p)))
     = mset (devices (board (board_with two_devices ?p)))"
    by (simp add: board_with_def)
  have b: "bus_probe (board_with (rev two_devices) ?p) = bus_probe (board_with two_devices ?p)"
    by (simp add: board_with_def)
  have n: "list_all (\<lambda>v. \<not> entry_fault (board_with two_devices ?p) v)
       (dict_values (devices (board (board_with two_devices ?p))))"
    by (simp add: board_with_def two_devices_def dict_values_def simulated_bus_def)
  have r: "fst (detect (board_with two_devices ?p)) = Inr False"
    by (simp add: detect_def board_with_def two_devices_def dict_values_def simulated_bus_def
        check_for_i2c_device_def)
  have c: "probe_calls (snd (detect (board_with (rev two_devices) ?p)))
     \<noteq> probe_calls (snd (detect (board_with two_devices ?p)))"
    by (simp add: detect_def board_with_def two_devices_def dict_values_def simulated_bus_def
        check_for_i2c_device_def)
  show ?thesis
    using m b n r c detect_order_independent [OF m b n] by simp
qed

subsection \<open>The constructor\<close>

text \<open>
  When \<^verbatim>\<open>data\<close> has neither of the two names, the base-class constructor receives
  \<^verbatim>\<open>data\<close> extended by the name "Tummler" and the platform \<^verbatim>\<open>Platform.Tummler\<close>.
\<close>

lemma Tummler_init_forwards:
  "data ''name'' = None \<Longrightarrow> data ''platform'' = None \<Longrightarrow>
   Tummler_init super_init data w =
     super_init (data(''name'' \<mapsto> Str ''Tummler'', ''platform'' \<mapsto> Plat Platform_Tummler)) w"
  by (simp add: Tummler_init_def)

text \<open>
  C10. When \<^verbatim>\<open>data\<close> contains the key "name" or the key "platform", the construction
  fails with \<^verbatim>\<open>TypeError\<close> and the base-class constructor does not run: the result is
  the same for every base-class constructor, and the world it could change is unchanged.
\<close>

theorem Tummler_init_duplicate_keyword:
  "''name'' \<in> dom data \<or> ''platform'' \<in> dom data \<Longrightarrow>
   Tummler_init super_init data w = (Inl TypeError, w)"
  by (auto simp add: Tummler_init_def)

theorem Tummler_init_duplicate_keyword_witness:
  "(''name'' \<in> dom [''name'' \<mapsto> (Str ''Navigator'' :: unit pyval)]
      \<or> ''platform'' \<in> dom [''name'' \<mapsto> (Str ''Navigator'' :: unit pyval)])
   \<and> Tummler_init kwargs_seen [''name'' \<mapsto> (Str ''Navigator'' :: unit pyval)] [] = (Inl TypeError, [])
   \<and> (''name'' \<in> dom [''platform'' \<mapsto> (Plat Platform_Tummler :: unit pyval)]
      \<or> ''platform'' \<in> dom [''platform'' \<mapsto> (Plat Platform_Tummler :: unit pyval)])
   \<and> Tummler_init kwargs_seen [''platform'' \<mapsto> (Plat Platform_Tummler :: unit pyval)] []
     = (Inl TypeError, [])"
proof -
  have n: "''name'' \<in> dom [''name'' \<mapsto> (Str ''Navigator'' :: unit pyval)]
      \<or> ''platform'' \<in> dom [''name'' \<mapsto> (Str ''Navigator'' :: unit pyval)]"
    by simp
  have p: "''name'' \<in> dom [''platform'' \<mapsto> (Plat Platform_Tummler :: unit pyval)]
      \<or> ''platform'' \<in> dom [''platform'' \<mapsto> (Plat Platform_Tummler :: unit pyval)]"
    by simp
  show ?thesis
    using n p Tummler_init_duplicate_keyword [OF n, of kwargs_seen "[]"]
      Tummler_init_duplicate_keyword [OF p, of kwargs_seen "[]"]
    by simp
qed

end
